theory Spec2Isabelle
  imports Main
begin

section \<open>The Tesla fleet-status client (tesla.go)\<close>

text \<open>
  A shallow embedding of \<^verbatim>\<open>tesla.go\<close>: the client configuration, its constructor
  \<^verbatim>\<open>New\<close> with the two options, and \<^verbatim>\<open>Client.GetFleetStatus\<close>.

  The Go standard library is outside the repository. Its pure functions whose results
  matter only through equality (JSON encoding and decoding, URL joining, printing and
  parsing) are fields of an environment record \<open>env\<close>, and every theorem holds for every
  environment; so is the value of \<^verbatim>\<open>http.DefaultClient\<close>. What the declaration
  of \<^verbatim>\<open>vehicleInfo\<close> says about decoding (the kinds of its fields and their tags) is
  modelled apart, on JSON values, for the statement that speaks of JSON fields; reading
  the text of a JSON document stays with the library. The HTTP transport is
  the function stored in the client: what \<^verbatim>\<open>hc.Do\<close> answers to a request. A
  pointer field is an \<open>option\<close> (\<open>None\<close> is \<^verbatim>\<open>nil\<close>), and dereferencing
  \<^verbatim>\<open>nil\<close> is the outcome \<open>Panic\<close>. The receiver of \<^verbatim>\<open>GetFleetStatus\<close> is a
  client. An \<^verbatim>\<open>Option\<close> is \<^verbatim>\<open>nil\<close> or a function, and calling a \<^verbatim>\<open>nil\<close>
  function is a panic too. Code supplied by the caller (the transport, an
  \<^verbatim>\<open>Option\<close> function that is not \<^verbatim>\<open>nil\<close>) is taken to return: it is a total
  HOL function.
\<close>

subsection \<open>Data\<close>

type_synonym bytes = string

text \<open>
  A Go \<^verbatim>\<open>error\<close>. \<open>Lib e\<close> is an error made by a library call, \<open>errors_New s\<close> is
  \<^verbatim>\<open>errors.New(s)\<close>, and the two \<open>Errorf\<close> constructors are the two shapes of
  \<^verbatim>\<open>fmt.Errorf\<close> in the file: a format ending in \<^verbatim>\<open>%w\<close> with the wrapped
  error, and a format with one \<^verbatim>\<open>%d\<close> with its integer. The format string is kept as
  written; the integer is kept as a number.
\<close>

datatype 'e error =
    Lib 'e
  | errors_New string
  | Errorf_w string "'e error"
  | Errorf_d string int

text \<open>\<^verbatim>\<open>http.Request\<close>, the fields this client sets.\<close>

record ('u, 'c) Request =
  Method :: string
  URL :: 'u
  Header :: "string \<rightharpoonup> string list"
  ReqBody :: bytes
  Ctx :: 'c

text \<open>
  A response body is a stream: reading it yields some bytes and then either the end of
  the stream or a read error.
\<close>

datatype 'e reader = Reader bytes "'e option"

record 'e Response =
  StatusCode :: int
  Body :: "'e reader"

text \<open>\<^verbatim>\<open>http.Client\<close>, by what its method \<^verbatim>\<open>Do\<close> returns for a request.\<close>

type_synonym ('e, 'u, 'c) http_Client = "('u, 'c) Request \<Rightarrow> 'e + 'e Response"

record ('e, 'u, 'c) Client =
  hc :: "('e, 'u, 'c) http_Client option"
  baseURL :: "'u option"

text \<open>
  \<^verbatim>\<open>type Option func(*Client)\<close>: a function value, which may be \<^verbatim>\<open>nil\<close>. The
  function changes the client it is given.
\<close>

type_synonym ('e, 'u, 'c) Option = "(('e, 'u, 'c) Client \<Rightarrow> ('e, 'u, 'c) Client) option"

record getFleetStatusRequest =
  VINs :: "string list"

record 'a responseWrapper =
  Response :: 'a

text \<open>
  The pointer fields \<^verbatim>\<open>*bool\<close>, \<^verbatim>\<open>*string\<close> and \<^verbatim>\<open>*int\<close> are options. No
  arithmetic is done on \<^verbatim>\<open>TotalNumberOfKeys\<close>, so its \<^verbatim>\<open>int\<close> is an \<open>int\<close>.
\<close>

record vehicleInfo =
  VehicleCommandProtocolRequired :: bool
  SafetyScreenStreamingToggleEnabled :: "bool option"
  FirmwareVersion :: string
  FleetTelemetryVersion :: "string option"
  TotalNumberOfKeys :: "int option"
  DiscountedDeviceData :: bool

record fleetStatus =
  KeyPairedVINs :: "string list"
  UnpairedVINs :: "string list"
  VehicleInfo :: "string \<rightharpoonup> vehicleInfo"

record FleetStatus =
  KeyPaired :: bool
  VehicleCommandProtocolRequired :: bool
  SafetyScreenStreamingToggleEnabled :: "bool option"
  FirmwareVersion :: string
  FleetTelemetryVersion :: "string option"
  TotalNumberOfKeys :: "int option"
  DiscountedDeviceData :: bool

text \<open>The zero value of \<^verbatim>\<open>vehicleInfo\<close>, which indexing a Go map gives for a missing key.\<close>

definition zero_vehicleInfo :: vehicleInfo where
  "zero_vehicleInfo =
     \<lparr>vehicleInfo.VehicleCommandProtocolRequired = False,
      vehicleInfo.SafetyScreenStreamingToggleEnabled = None,
      vehicleInfo.FirmwareVersion = [],
      vehicleInfo.FleetTelemetryVersion = None,
      vehicleInfo.TotalNumberOfKeys = None,
      vehicleInfo.DiscountedDeviceData = False\<rparr>"

subsection \<open>The standard library\<close>

record ('e, 'u, 'c) env =
  json_Marshal :: "getFleetStatusRequest \<Rightarrow> 'e + bytes"
  json_Unmarshal :: "bytes \<Rightarrow> 'e + fleetStatus responseWrapper"
  url_Parse :: "string \<Rightarrow> 'e + 'u"
  url_JoinPath :: "'u \<Rightarrow> string list \<Rightarrow> 'u"
  url_String :: "'u \<Rightarrow> string"
  http_DefaultClient :: "('e, 'u, 'c) http_Client"

text \<open>
  \<^verbatim>\<open>http.NewRequestWithContext\<close>: it refuses a \<^verbatim>\<open>nil\<close> context, parses the URL, and
  returns a request with an empty header. (Its check of the method passes for
  \<^verbatim>\<open>POST\<close>.)
\<close>

definition http_NewRequestWithContext ::
  "('e, 'u, 'c) env \<Rightarrow> 'c option \<Rightarrow> string \<Rightarrow> string \<Rightarrow> bytes \<Rightarrow> 'e error + ('u, 'c) Request" where
  "http_NewRequestWithContext env ctx method url body =
     (case ctx of
        None \<Rightarrow> Inl (errors_New ''net/http: nil Context'')
      | Some cx \<Rightarrow>
          (case url_Parse env url of
             Inl err \<Rightarrow> Inl (Lib err)
           | Inr u \<Rightarrow>
               Inr \<lparr>Method = method, URL = u, Header = Map.empty, ReqBody = body, Ctx = cx\<rparr>))"

text \<open>
  \<^verbatim>\<open>Header.Set\<close> replaces the values of a key by one value. The two keys the client
  sets are already in canonical form.
\<close>

definition Header_Set :: "(string \<rightharpoonup> string list) \<Rightarrow> string \<Rightarrow> string \<Rightarrow> (string \<rightharpoonup> string list)" where
  "Header_Set h key v = h(key \<mapsto> [v])"

text \<open>\<^verbatim>\<open>io.ReadAll\<close>: the bytes read, and the read error if there was one.\<close>

fun io_ReadAll :: "'e reader \<Rightarrow> bytes \<times> 'e option" where
  "io_ReadAll (Reader bs err) = (bs, err)"

subsection \<open>The client\<close>

definition DefaultBaseURL :: "('e, 'u, 'c) env \<Rightarrow> 'u option" where
  "DefaultBaseURL env =
     (case url_Parse env ''https://fleet-api.prd.na.vn.cloud.tesla.com'' of
        Inl _ \<Rightarrow> None
      | Inr u \<Rightarrow> Some u)"

definition WithHTTPClient :: "('e, 'u, 'c) http_Client option \<Rightarrow> ('e, 'u, 'c) Option" where
  "WithHTTPClient h = Some (\<lambda>c. c\<lparr>hc := h\<rparr>)"

definition WithBaseURL :: "'u option \<Rightarrow> ('e, 'u, 'c) Option" where
  "WithBaseURL u = Some (\<lambda>c. c\<lparr>baseURL := u\<rparr>)"

text \<open>
  How \<^verbatim>\<open>New\<close> ends: it returns the client it built (a pointer that is never
  \<^verbatim>\<open>nil\<close>), or it panics.
\<close>

datatype ('e, 'u, 'c) built =
    Panicked
  | Built "('e, 'u, 'c) Client"

text \<open>
  The loop of \<^verbatim>\<open>New\<close> over its options: \<^verbatim>\<open>opt(c)\<close> calls the option, and the
  call of a \<^verbatim>\<open>nil\<close> option panics.
\<close>

fun apply_options :: "('e, 'u, 'c) Client \<Rightarrow> ('e, 'u, 'c) Option list \<Rightarrow> ('e, 'u, 'c) built" where
  "apply_options c [] = Built c"
| "apply_options c (opt # options) =
     (case opt of
        None \<Rightarrow> Panicked
      | Some f \<Rightarrow> apply_options (f c) options)"

definition New :: "('e, 'u, 'c) env \<Rightarrow> ('e, 'u, 'c) Option list \<Rightarrow> ('e, 'u, 'c) built" where
  "New env options =
     apply_options \<lparr>hc = Some (http_DefaultClient env), baseURL = DefaultBaseURL env\<rparr> options"

subsection \<open>GetFleetStatus\<close>

text \<open>
  What a call does to the world: each request handed to the transport, with the
  transport's answer, and the closing of the response body.
\<close>

datatype ('e, 'u, 'c) event =
    Do "('u, 'c) Request" "'e + 'e Response"
  | Close

text \<open>
  How a call ends: a panic, or the pair \<^verbatim>\<open>(*FleetStatus, error)\<close> it returns, each
  component \<^verbatim>\<open>nil\<close> or not.
\<close>

datatype 'e outcome =
    Panic
  | Return "FleetStatus option" "'e error option"

text \<open>A finished call: its outcome, the client afterwards, and its events in order.\<close>

record ('e, 'u, 'c) call =
  outcome :: "'e outcome"
  client :: "('e, 'u, 'c) Client"
  events :: "('e, 'u, 'c) event list"

definition GetFleetStatus ::
  "('e, 'u, 'c) env \<Rightarrow> ('e, 'u, 'c) Client \<Rightarrow> 'c option \<Rightarrow> string \<Rightarrow> string \<Rightarrow> ('e, 'u, 'c) call" where
  "GetFleetStatus env c ctx token vin =
    (let reqBody = \<lparr>VINs = [vin]\<rparr> in
     case json_Marshal env reqBody of
       Inl err \<Rightarrow>
         \<lparr>outcome = Return None (Some (Errorf_w ''failed to serialize request body: %w'' (Lib err))),
          client = c, events = []\<rparr>
     | Inr reqBytes \<Rightarrow>
    (case baseURL c of
       None \<Rightarrow> \<lparr>outcome = Panic, client = c, events = []\<rparr>
     | Some b \<Rightarrow>
    (let u = url_JoinPath env b [''api/1/vehicles/fleet_status''] in
     case http_NewRequestWithContext env ctx ''POST'' (url_String env u) reqBytes of
       Inl err \<Rightarrow>
         \<lparr>outcome = Return None (Some (Errorf_w ''failed to construct request: %w'' err)),
          client = c, events = []\<rparr>
     | Inr req0 \<Rightarrow>
    (let req1 = req0\<lparr>Header := Header_Set (Header req0) ''Authorization'' (''Bearer '' @ token)\<rparr>;
         req = req1\<lparr>Header := Header_Set (Header req1) ''Content-Type'' ''application/json''\<rparr> in
     case hc c of
       None \<Rightarrow> \<lparr>outcome = Panic, client = c, events = []\<rparr>
     | Some h \<Rightarrow>
    (case h req of
       Inl err \<Rightarrow>
         \<lparr>outcome = Return None (Some (Errorf_w ''request failed: %w'' (Lib err))),
          client = c, events = [Do req (Inl err)]\<rparr>
     | Inr resp \<Rightarrow>
    (let (respBytes, rerr) = io_ReadAll (Body resp);
         evs = [Do req (Inr resp), Close] in
     case rerr of
       Some err \<Rightarrow>
         \<lparr>outcome = Return None (Some (Errorf_w ''failed to read response body: %w'' (Lib err))),
          client = c, events = evs\<rparr>
     | None \<Rightarrow>
     if StatusCode resp \<noteq> 200 then
         \<lparr>outcome = Return None (Some (Errorf_d ''status code %d'' (StatusCode resp))),
          client = c, events = evs\<rparr>
     else
    (case json_Unmarshal env respBytes of
       Inl err \<Rightarrow>
         \<lparr>outcome = Return None (Some (Errorf_w ''failed to parse response body: %w'' (Lib err))),
          client = c, events = evs\<rparr>
     | Inr respBody \<Rightarrow>
    (let fs = (case VehicleInfo (Response respBody) vin of
                 None \<Rightarrow> zero_vehicleInfo
               | Some v \<Rightarrow> v) in
     \<lparr>outcome = Return
        (Some \<lparr>KeyPaired = (length (KeyPairedVINs (Response respBody)) = 1),
               VehicleCommandProtocolRequired = vehicleInfo.VehicleCommandProtocolRequired fs,
               SafetyScreenStreamingToggleEnabled = vehicleInfo.SafetyScreenStreamingToggleEnabled fs,
               FirmwareVersion = vehicleInfo.FirmwareVersion fs,
               FleetTelemetryVersion = vehicleInfo.FleetTelemetryVersion fs,
               TotalNumberOfKeys = vehicleInfo.TotalNumberOfKeys fs,
               DiscountedDeviceData = vehicleInfo.DiscountedDeviceData fs\<rparr>)
        None,
      client = c, events = evs\<rparr>))))))))"

text \<open>The requests among the events of a call.\<close>

fun sent :: "('e, 'u, 'c) event list \<Rightarrow> ('u, 'c) Request list" where
  "sent [] = []"
| "sent (Do req ans # evs) = req # sent evs"
| "sent (Close # evs) = sent evs"

text \<open>The responses among the events of a call: what the transport answered.\<close>

fun received :: "('e, 'u, 'c) event list \<Rightarrow> 'e Response list" where
  "received [] = []"
| "received (Do req (Inr resp) # evs) = resp # received evs"
| "received (Do req (Inl err) # evs) = received evs"
| "received (Close # evs) = received evs"

subsection \<open>JSON values and the fields of \<^verbatim>\<open>vehicleInfo\<close>\<close>

text \<open>
  The struct \<^verbatim>\<open>vehicleInfo\<close> says, by the types and tags of its fields, how
  \<^verbatim>\<open>encoding/json\<close> fills it from a JSON value. This part models that: a JSON value as
  a tree, and the decoding of a tree into the struct. A number keeps its literal, a
  string and a key are held unquoted, and an object keeps its members in the order of
  the document, duplicates included.
\<close>

datatype json =
    JNull
  | JBool bool
  | JNumber string
  | JString string
  | JArray "json list"
  | JObject "(string \<times> json) list"

text \<open>
  Field names are compared by case folding. \<open>foldName\<close> folds a UTF-8 string as far as
  a comparison with an ASCII name needs it: ASCII letters go to upper case, and the two
  other characters that fold to an ASCII letter, the Kelvin sign (U+212A) and the long s
  (U+017F), go to \<open>K\<close> and \<open>S\<close>. Every other character folds to a character outside
  ASCII and is left as it is.
\<close>

definition upper :: "char \<Rightarrow> char" where
  "upper c =
     (case map_of (zip ''abcdefghijklmnopqrstuvwxyz'' ''ABCDEFGHIJKLMNOPQRSTUVWXYZ'') c of
        None \<Rightarrow> c
      | Some C \<Rightarrow> C)"

fun foldName :: "string \<Rightarrow> string" where
  "foldName [] = []"
| "foldName (c # cs) =
     (if c = CHR 0xE2 \<and> take 2 cs = [CHR 0x84, CHR 0xAA] then CHR ''K'' # foldName (drop 2 cs)
      else if c = CHR 0xC5 \<and> take 1 cs = [CHR 0xBF] then CHR ''S'' # foldName (drop 1 cs)
      else upper c # foldName cs)"

text \<open>
  \<^verbatim>\<open>strconv.ParseInt(s, 10, 64)\<close>: an optional sign and decimal digits, within 64
  bits. The \<^verbatim>\<open>int\<close> of \<^verbatim>\<open>TotalNumberOfKeys\<close> is taken to have 64 bits.
\<close>

fun digits :: "string \<Rightarrow> nat \<Rightarrow> nat option" where
  "digits [] n = Some n"
| "digits (c # cs) n =
     (case map_of (zip ''0123456789'' [0, 1, 2, 3, 4, 5, 6, 7, 8, 9]) c of
        None \<Rightarrow> None
      | Some d \<Rightarrow> digits cs (10 * n + d))"

definition strconv_ParseInt :: "string \<Rightarrow> int option" where
  "strconv_ParseInt s =
     (case s of
        [] \<Rightarrow> None
      | c # cs \<Rightarrow>
          (let ds = (if c = CHR ''-'' \<or> c = CHR ''+'' then cs else s) in
           if ds = [] then None
           else
             (case digits ds 0 of
                None \<Rightarrow> None
              | Some n \<Rightarrow>
                  (let v = (if c = CHR ''-'' then - int n else int n) in
                   if - (2 ^ 63) \<le> v \<and> v < 2 ^ 63 then Some v else None))))"

text \<open>
  \<^verbatim>\<open>json.UnmarshalTypeError\<close>, with its description of the JSON value and the name
  of the Go type.
\<close>

datatype json_error = UnmarshalTypeError string string

fun describe :: "json \<Rightarrow> string" where
  "describe JNull = ''null''"
| "describe (JBool b) = ''bool''"
| "describe (JNumber lit) = ''number''"
| "describe (JString s) = ''string''"
| "describe (JArray xs) = ''array''"
| "describe (JObject ms) = ''object''"

text \<open>
  Storing a JSON value into a Go value of kind \<^verbatim>\<open>bool\<close>, \<^verbatim>\<open>string\<close> or
  \<^verbatim>\<open>int\<close>: \<^verbatim>\<open>null\<close> leaves the Go value as it is, a value of the right kind
  replaces it, and anything else is a type error.
\<close>

fun store_bool :: "json \<Rightarrow> bool \<Rightarrow> json_error + bool" where
  "store_bool JNull old = Inr old"
| "store_bool (JBool b) old = Inr b"
| "store_bool j old = Inl (UnmarshalTypeError (describe j) ''bool'')"

fun store_string :: "json \<Rightarrow> string \<Rightarrow> json_error + string" where
  "store_string JNull old = Inr old"
| "store_string (JString s) old = Inr s"
| "store_string j old = Inl (UnmarshalTypeError (describe j) ''string'')"

fun store_int :: "json \<Rightarrow> int \<Rightarrow> json_error + int" where
  "store_int JNull old = Inr old"
| "store_int (JNumber lit) old =
     (case strconv_ParseInt lit of
        None \<Rightarrow> Inl (UnmarshalTypeError (''number '' @ lit) ''int'')
      | Some n \<Rightarrow> Inr n)"
| "store_int j old = Inl (UnmarshalTypeError (describe j) ''int'')"

text \<open>
  Storing into a pointer: \<^verbatim>\<open>null\<close> sets the pointer to \<^verbatim>\<open>nil\<close>; any other
  value is stored into what the pointer points to, which is allocated first if the
  pointer is \<^verbatim>\<open>nil\<close>.
\<close>

definition store_pointer ::
  "(json \<Rightarrow> 'a \<Rightarrow> json_error + 'a) \<Rightarrow> 'a \<Rightarrow> json \<Rightarrow> 'a option \<Rightarrow> json_error + 'a option" where
  "store_pointer store zero j old =
     (if j = JNull then Inr None
      else
        (case store j (case old of None \<Rightarrow> zero | Some x \<Rightarrow> x) of
           Inl err \<Rightarrow> Inl err
         | Inr x \<Rightarrow> Inr (Some x)))"

text \<open>
  The tags of \<^verbatim>\<open>vehicleInfo\<close> in the order of the fields, and the field a key of a
  JSON object goes to: the field whose tag is the key, and failing that the first field
  whose tag is equal to the key under case folding. A key that finds no field is
  skipped with its value.
\<close>

definition vehicleInfo_tags :: "string list" where
  "vehicleInfo_tags =
     [''vehicle_command_protocol_required'',
      ''safety_screen_streaming_toggle_enabled'',
      ''firmware_version'',
      ''fleet_telemetry_version'',
      ''total_number_of_keys'',
      ''discounted_device_data'']"

definition find_field :: "string list \<Rightarrow> string \<Rightarrow> string option" where
  "find_field tags key =
     (case find (\<lambda>tag. tag = key) tags of
        Some tag \<Rightarrow> Some tag
      | None \<Rightarrow> find (\<lambda>tag. foldName tag = foldName key) tags)"

definition vehicleInfo_field :: "string \<Rightarrow> json \<Rightarrow> vehicleInfo \<Rightarrow> json_error + vehicleInfo" where
  "vehicleInfo_field key j v =
     (case find_field vehicleInfo_tags key of
        None \<Rightarrow> Inr v
      | Some tag \<Rightarrow>
          if tag = ''vehicle_command_protocol_required'' then
            (case store_bool j (vehicleInfo.VehicleCommandProtocolRequired v) of
               Inl err \<Rightarrow> Inl err
             | Inr x \<Rightarrow> Inr (v\<lparr>vehicleInfo.VehicleCommandProtocolRequired := x\<rparr>))
          else if tag = ''safety_screen_streaming_toggle_enabled'' then
            (case store_pointer store_bool False j (vehicleInfo.SafetyScreenStreamingToggleEnabled v) of
               Inl err \<Rightarrow> Inl err
             | Inr x \<Rightarrow> Inr (v\<lparr>vehicleInfo.SafetyScreenStreamingToggleEnabled := x\<rparr>))
          else if tag = ''firmware_version'' then
            (case store_string j (vehicleInfo.FirmwareVersion v) of
               Inl err \<Rightarrow> Inl err
             | Inr x \<Rightarrow> Inr (v\<lparr>vehicleInfo.FirmwareVersion := x\<rparr>))
          else if tag = ''fleet_telemetry_version'' then
            (case store_pointer store_string [] j (vehicleInfo.FleetTelemetryVersion v) of
               Inl err \<Rightarrow> Inl err
             | Inr x \<Rightarrow> Inr (v\<lparr>vehicleInfo.FleetTelemetryVersion := x\<rparr>))
          else if tag = ''total_number_of_keys'' then
            (case store_pointer store_int 0 j (vehicleInfo.TotalNumberOfKeys v) of
               Inl err \<Rightarrow> Inl err
             | Inr x \<Rightarrow> Inr (v\<lparr>vehicleInfo.TotalNumberOfKeys := x\<rparr>))
          else if tag = ''discounted_device_data'' then
            (case store_bool j (vehicleInfo.DiscountedDeviceData v) of
               Inl err \<Rightarrow> Inl err
             | Inr x \<Rightarrow> Inr (v\<lparr>vehicleInfo.DiscountedDeviceData := x\<rparr>))
          else Inr v)"

text \<open>The members of a JSON object are stored one after the other, in their order.\<close>

fun object_vehicleInfo :: "(string \<times> json) list \<Rightarrow> vehicleInfo \<Rightarrow> json_error + vehicleInfo" where
  "object_vehicleInfo [] v = Inr v"
| "object_vehicleInfo ((key, j) # members) v =
     (case vehicleInfo_field key j v of
        Inl err \<Rightarrow> Inl err
      | Inr v' \<Rightarrow> object_vehicleInfo members v')"

text \<open>
  Decoding a JSON value into a \<^verbatim>\<open>vehicleInfo\<close>: \<^verbatim>\<open>null\<close> leaves the struct as it
  is, an object is stored member by member, and any other value is a type error. An
  element of the map \<^verbatim>\<open>vehicle_info\<close> is decoded into the zero value.
\<close>

fun Unmarshal_vehicleInfo :: "json \<Rightarrow> vehicleInfo \<Rightarrow> json_error + vehicleInfo" where
  "Unmarshal_vehicleInfo JNull v = Inr v"
| "Unmarshal_vehicleInfo (JObject members) v = object_vehicleInfo members v"
| "Unmarshal_vehicleInfo j v = Inl (UnmarshalTypeError (describe j) ''tesla.vehicleInfo'')"

text \<open>
  What a JSON value presents for a field: \<open>members_for\<close> are the values of the members
  that go to the field, in their order; \<open>json_field\<close> is the last of them, and
  \<open>json_value\<close> the last of them that is not \<^verbatim>\<open>null\<close>. A value that is not an object
  presents nothing.
\<close>

definition members_for :: "string \<Rightarrow> json \<Rightarrow> json list" where
  "members_for tag j =
     (case j of
        JObject members \<Rightarrow>
          map snd (filter (\<lambda>m. find_field vehicleInfo_tags (fst m) = Some tag) members)
      | _ \<Rightarrow> [])"

definition json_field :: "string \<Rightarrow> json \<Rightarrow> json option" where
  "json_field tag j = (case rev (members_for tag j) of [] \<Rightarrow> None | x # xs \<Rightarrow> Some x)"

definition json_value :: "string \<Rightarrow> json \<Rightarrow> json option" where
  "json_value tag j =
     (case rev (filter (\<lambda>x. x \<noteq> JNull) (members_for tag j)) of [] \<Rightarrow> None | x # xs \<Rightarrow> Some x)"

subsection \<open>An example environment\<close>

text \<open>
  A small concrete library, for running the client on examples: errors and URLs are
  strings, the context is a unit, and the JSON decoder knows two bodies.
\<close>

definition example_vin :: string where
  "example_vin = ''5YJ3E1EA1JF000001''"

definition other_vin :: string where
  "other_vin = ''5YJ3E1EA1JF000002''"

definition example_body :: bytes where
  \<open>example_body = ''{"response":{"key_paired_vins":["5YJ3E1EA1JF000001"],"unpaired_vins":[],"vehicle_info":{"5YJ3E1EA1JF000001":{"vehicle_command_protocol_required":true,"safety_screen_streaming_toggle_enabled":null,"firmware_version":"2024.8.1","fleet_telemetry_version":null,"total_number_of_keys":3,"discounted_device_data":false}}}}''\<close>

definition example_info :: vehicleInfo where
  "example_info =
     \<lparr>vehicleInfo.VehicleCommandProtocolRequired = True,
      vehicleInfo.SafetyScreenStreamingToggleEnabled = None,
      vehicleInfo.FirmwareVersion = ''2024.8.1'',
      vehicleInfo.FleetTelemetryVersion = None,
      vehicleInfo.TotalNumberOfKeys = Some 3,
      vehicleInfo.DiscountedDeviceData = False\<rparr>"

text \<open>The JSON value that \<open>example_body\<close> presents for the vehicle.\<close>

definition example_entry :: json where
  "example_entry =
     JObject
       [(''vehicle_command_protocol_required'', JBool True),
        (''safety_screen_streaming_toggle_enabled'', JNull),
        (''firmware_version'', JString ''2024.8.1''),
        (''fleet_telemetry_version'', JNull),
        (''total_number_of_keys'', JNumber ''3''),
        (''discounted_device_data'', JBool False)]"

definition example_parsed :: "fleetStatus responseWrapper" where
  "example_parsed =
     \<lparr>Response =
        \<lparr>KeyPairedVINs = [example_vin], UnpairedVINs = [],
         VehicleInfo = [example_vin \<mapsto> example_info]\<rparr>\<rparr>"

text \<open>
  A second body for the same vehicle: another paired VIN, an unpaired VIN, and an entry
  for a second vehicle.
\<close>

definition second_body :: bytes where
  \<open>second_body = ''{"response":{"key_paired_vins":["5YJ3E1EA1JF000002"],"unpaired_vins":["5YJ3E1EA1JF000003"],"vehicle_info":{"5YJ3E1EA1JF000001":{"vehicle_command_protocol_required":true,"firmware_version":"2024.8.1","total_number_of_keys":3},"5YJ3E1EA1JF000003":{"firmware_version":"2023.44"}}}}''\<close>

definition second_parsed :: "fleetStatus responseWrapper" where
  "second_parsed =
     \<lparr>Response =
        \<lparr>KeyPairedVINs = [other_vin], UnpairedVINs = [''5YJ3E1EA1JF000003''],
         VehicleInfo =
           [example_vin \<mapsto> example_info,
            ''5YJ3E1EA1JF000003'' \<mapsto>
              zero_vehicleInfo\<lparr>vehicleInfo.FirmwareVersion := ''2023.44''\<rparr>]\<rparr>\<rparr>"

definition example_env :: "(string, string, unit) env" where
  \<open>example_env =
     \<lparr>json_Marshal =
        (\<lambda>r. Inr (''{"vins":['' @
           (case VINs r of
              [] \<Rightarrow> []
            | v # vs \<Rightarrow> ''"'' @ v @ ''"'' @ concat (map (\<lambda>w. '',"'' @ w @ ''"'') vs)) @
           '']}'')),
      json_Unmarshal =
        (\<lambda>b. if b = example_body then Inr example_parsed
             else if b = second_body then Inr second_parsed
             else Inl ''invalid character''),
      url_Parse = (\<lambda>s. if CHR '' '' \<in> set s then Inl ''invalid character in host name'' else Inr s),
      url_JoinPath = (\<lambda>u elems. u @ concat (map (\<lambda>e. ''/'' @ e) elems)),
      url_String = (\<lambda>u. u),
      http_DefaultClient = (\<lambda>req. Inl ''no route to host'')\<rparr>\<close>

text \<open>Transports that answer every request alike, and the default client with one of them.\<close>

definition answering :: "int \<Rightarrow> string reader \<Rightarrow> (string, string, unit) http_Client" where
  "answering code body = (\<lambda>req. Inr \<lparr>StatusCode = code, Body = body\<rparr>)"

definition example_client :: "int \<Rightarrow> string reader \<Rightarrow> (string, string, unit) Client" where
  "example_client code body =
     \<lparr>hc = Some (answering code body), baseURL = DefaultBaseURL example_env\<rparr>"

section \<open>Properties\<close>

subsection \<open>Shared lemmas\<close>

lemmas run_defs = GetFleetStatus_def Let_def second_body_def example_body_def example_env_def
  answering_def example_client_def New_def WithHTTPClient_def WithBaseURL_def
  http_NewRequestWithContext_def Header_Set_def DefaultBaseURL_def

text \<open>The example clients are what \<open>New\<close> builds from one \<open>WithHTTPClient\<close>.\<close>

lemma example_client_built:
  "New example_env [WithHTTPClient (Some (answering code body))] = Built (example_client code body)"
  by (simp add: New_def WithHTTPClient_def example_client_def)

text \<open>A response with status 200 whose body is read and decoded gives this result.\<close>

lemma GetFleetStatus_parsed:
  assumes "received (events (GetFleetStatus env c ctx token vin)) = [resp]"
    and "StatusCode resp = 200"
    and "io_ReadAll (Body resp) = (respBytes, None)"
    and "json_Unmarshal env respBytes = Inr respBody"
  shows "outcome (GetFleetStatus env c ctx token vin) =
           (let fs = (case VehicleInfo (Response respBody) vin of
                        None \<Rightarrow> zero_vehicleInfo
                      | Some v \<Rightarrow> v)
            in Return (Some \<lparr>KeyPaired = (length (KeyPairedVINs (Response respBody)) = 1),
                         VehicleCommandProtocolRequired = vehicleInfo.VehicleCommandProtocolRequired fs,
                         SafetyScreenStreamingToggleEnabled = vehicleInfo.SafetyScreenStreamingToggleEnabled fs,
                         FirmwareVersion = vehicleInfo.FirmwareVersion fs,
                         FleetTelemetryVersion = vehicleInfo.FleetTelemetryVersion fs,
                         TotalNumberOfKeys = vehicleInfo.TotalNumberOfKeys fs,
                         DiscountedDeviceData = vehicleInfo.DiscountedDeviceData fs\<rparr>) None)"
  using assms
  by (auto simp: GetFleetStatus_def Let_def
           split: sum.splits option.splits prod.splits if_splits)

text \<open>No call hands more than one request to the transport.\<close>

lemma GetFleetStatus_at_most_one_request:
  "length (sent (events (GetFleetStatus env c ctx token vin))) \<le> 1"
  by (simp add: GetFleetStatus_def Let_def split: sum.split option.split prod.split)

lemma apply_options_append:
  "apply_options c (xs @ ys) =
     (case apply_options c xs of
        Panicked \<Rightarrow> Panicked
      | Built c' \<Rightarrow> apply_options c' ys)"
  by (induction xs arbitrary: c) (simp_all split: option.split)

lemma apply_options_not_nil:
  "None \<notin> set options \<Longrightarrow> \<exists>c'. apply_options c options = Built c'"
proof (induction options arbitrary: c)
  case Nil
  then show ?case by simp
next
  case (Cons opt options)
  then obtain f where "opt = Some f" by (cases opt) auto
  with Cons show ?case by simp
qed

lemma apply_options_WithBaseURL:
  "apply_options c (map WithBaseURL us) = Built (c\<lparr>baseURL := last (baseURL c # us)\<rparr>)"
  by (induction us arbitrary: c) (simp_all add: WithBaseURL_def)

lemma apply_options_WithHTTPClient:
  "apply_options c (map WithHTTPClient hs) = Built (c\<lparr>hc := last (hc c # hs)\<rparr>)"
  by (induction hs arbitrary: c) (simp_all add: WithHTTPClient_def)

text \<open>
  Decoding into \<^verbatim>\<open>vehicleInfo\<close>: each field of the decoded struct is what the JSON
  value presents for it. An example first, with keys in other cases, a repeated key and
  an unknown key.
\<close>

lemmas json_run = find_field_def vehicleInfo_tags_def vehicleInfo_field_def store_pointer_def
  strconv_ParseInt_def upper_def members_for_def json_field_def json_value_def

lemma example_entry_decodes:
  "Unmarshal_vehicleInfo example_entry zero_vehicleInfo = Inr example_info"
  by (simp add: example_entry_def json_run zero_vehicleInfo_def example_info_def)

lemma folded_example:
  "Unmarshal_vehicleInfo
     (JObject [(''Firmware_Version'', JString ''a''), (''FIRMWARE_VERSION'', JNull),
               (''total_number_of_'' @ [CHR 0xE2, CHR 0x84, CHR 0xAA] @ ''eys'', JNumber ''12''),
               (''total_number_of_keys'', JNull), (''unknown'', JArray [])]) zero_vehicleInfo =
   Inr (zero_vehicleInfo\<lparr>vehicleInfo.FirmwareVersion := ''a''\<rparr>)"
  by (simp add: json_run zero_vehicleInfo_def)





























subsection \<open>The result of a successful call\<close>

text \<open>
  C1. In every successful call to \<open>GetFleetStatus\<close> (a result and no error), the
  transport answered with one response, its body was read and decoded, and the result's
  \<open>KeyPaired\<close> is true if and only if the decoded \<^verbatim>\<open>key_paired_vins\<close> has length
  exactly 1. The queried VIN plays no part in it.
\<close>

theorem GetFleetStatus_key_paired:
  assumes "outcome (GetFleetStatus env c ctx token vin) = Return (Some fs) None"
  shows "\<exists>resp respBytes respBody.
           received (events (GetFleetStatus env c ctx token vin)) = [resp] \<and>
           io_ReadAll (Body resp) = (respBytes, None) \<and>
           json_Unmarshal env respBytes = Inr respBody \<and>
           (KeyPaired fs \<longleftrightarrow> length (KeyPairedVINs (Response respBody)) = 1)"
  using assms
  by (auto simp: GetFleetStatus_def Let_def split: sum.splits option.splits prod.splits if_splits)

text \<open>
  An instance: the response pairs one VIN, the call asks about another, and
  \<open>KeyPaired\<close> is true.
\<close>

theorem GetFleetStatus_key_paired_witness:
  "outcome (GetFleetStatus example_env (example_client 200 (Reader example_body None)) (Some ()) ''token'' other_vin)
     = Return (Some \<lparr>KeyPaired = True, VehicleCommandProtocolRequired = False,
          SafetyScreenStreamingToggleEnabled = None, FirmwareVersion = [],
          FleetTelemetryVersion = None, TotalNumberOfKeys = None, DiscountedDeviceData = False\<rparr>) None
   \<and> other_vin \<notin> set (KeyPairedVINs (Response example_parsed))
   \<and> (\<exists>resp respBytes respBody.
           received (events (GetFleetStatus example_env (example_client 200 (Reader example_body None)) (Some ()) ''token'' other_vin)) = [resp] \<and>
           io_ReadAll (Body resp) = (respBytes, None) \<and>
           json_Unmarshal example_env respBytes = Inr respBody \<and>
           length (KeyPairedVINs (Response respBody)) = 1)"
proof -
  have ok: "outcome (GetFleetStatus example_env (example_client 200 (Reader example_body None)) (Some ()) ''token'' other_vin)
     = Return (Some \<lparr>KeyPaired = True, VehicleCommandProtocolRequired = False,
          SafetyScreenStreamingToggleEnabled = None, FirmwareVersion = [],
          FleetTelemetryVersion = None, TotalNumberOfKeys = None, DiscountedDeviceData = False\<rparr>) None"
    by (simp add: run_defs example_parsed_def other_vin_def example_vin_def zero_vehicleInfo_def)
  have absent: "other_vin \<notin> set (KeyPairedVINs (Response example_parsed))"
    by (simp add: example_parsed_def other_vin_def example_vin_def)
  show ?thesis
    using ok absent GetFleetStatus_key_paired [OF ok] by simp
qed

text \<open>
  C2. When the transport answers with status 200, the body is read and decoded, and the
  decoded \<^verbatim>\<open>vehicle_info\<close> has no entry for the queried VIN, \<open>GetFleetStatus\<close>
  returns no error and a result whose per-vehicle fields are zero: both booleans false,
  the firmware version empty, the three optional fields absent. \<open>KeyPaired\<close> still
  comes from \<^verbatim>\<open>key_paired_vins\<close>.
\<close>

theorem GetFleetStatus_missing_vin:
  assumes "received (events (GetFleetStatus env c ctx token vin)) = [resp]"
    and "StatusCode resp = 200"
    and "io_ReadAll (Body resp) = (respBytes, None)"
    and "json_Unmarshal env respBytes = Inr respBody"
    and "VehicleInfo (Response respBody) vin = None"
  shows "outcome (GetFleetStatus env c ctx token vin) =
           Return (Some \<lparr>KeyPaired = (length (KeyPairedVINs (Response respBody)) = 1),
                         VehicleCommandProtocolRequired = False,
                         SafetyScreenStreamingToggleEnabled = None,
                         FirmwareVersion = [],
                         FleetTelemetryVersion = None,
                         TotalNumberOfKeys = None,
                         DiscountedDeviceData = False\<rparr>) None"
  using assms
  by (auto simp: GetFleetStatus_def Let_def zero_vehicleInfo_def
           split: sum.splits option.splits prod.splits if_splits)

theorem GetFleetStatus_missing_vin_witness:
  "outcome (GetFleetStatus example_env (example_client 200 (Reader second_body None)) (Some ()) ''token'' other_vin) =
     Return (Some \<lparr>KeyPaired = True,
                   VehicleCommandProtocolRequired = False,
                   SafetyScreenStreamingToggleEnabled = None,
                   FirmwareVersion = [],
                   FleetTelemetryVersion = None,
                   TotalNumberOfKeys = None,
                   DiscountedDeviceData = False\<rparr>) None"
proof -
  have answered: "received (events (GetFleetStatus example_env (example_client 200 (Reader second_body None)) (Some ()) ''token'' other_vin)) =
      [\<lparr>StatusCode = 200, Body = Reader second_body None\<rparr>]"
    by (simp add: run_defs)
  have parsed: "json_Unmarshal example_env second_body = Inr second_parsed"
    by (simp add: example_env_def second_body_def example_body_def)
  have missing: "VehicleInfo (Response second_parsed) other_vin = None"
    by (simp add: second_parsed_def other_vin_def example_vin_def)
  show ?thesis
    using GetFleetStatus_missing_vin [OF answered _ _ parsed missing]
    by (simp add: second_parsed_def)
qed



text \<open>
  C10. The result depends only on the length of the decoded \<^verbatim>\<open>key_paired_vins\<close> and
  on the decoded \<^verbatim>\<open>vehicle_info\<close> entry of the queried VIN: two calls for the same VIN
  that are answered with status 200 and whose decoded bodies agree on those two return
  the same result, whatever else the bodies, the clients, the contexts and the tokens
  are.
\<close>

theorem GetFleetStatus_depends_only:
  assumes "received (events (GetFleetStatus env c1 ctx1 token1 vin)) = [resp1]"
    and "received (events (GetFleetStatus env c2 ctx2 token2 vin)) = [resp2]"
    and "StatusCode resp1 = 200" and "StatusCode resp2 = 200"
    and "io_ReadAll (Body resp1) = (bytes1, None)"
    and "io_ReadAll (Body resp2) = (bytes2, None)"
    and "json_Unmarshal env bytes1 = Inr body1"
    and "json_Unmarshal env bytes2 = Inr body2"
    and "length (KeyPairedVINs (Response body1)) = length (KeyPairedVINs (Response body2))"
    and "VehicleInfo (Response body1) vin = VehicleInfo (Response body2) vin"
  shows "outcome (GetFleetStatus env c1 ctx1 token1 vin) = outcome (GetFleetStatus env c2 ctx2 token2 vin) \<and>
         (\<exists>fs. outcome (GetFleetStatus env c1 ctx1 token1 vin) = Return (Some fs) None)"
proof -
  note first = GetFleetStatus_parsed [OF assms(1) assms(3) assms(5) assms(7)]
  note second = GetFleetStatus_parsed [OF assms(2) assms(4) assms(6) assms(8)]
  show ?thesis
    by (simp add: first second assms(9) assms(10) Let_def)
qed

text \<open>
  An instance: two bodies that differ in the paired VIN, in the unpaired VINs and in the
  vehicles they describe.
\<close>

theorem GetFleetStatus_depends_only_witness:
  "outcome (GetFleetStatus example_env (example_client 200 (Reader example_body None)) (Some ()) ''token'' example_vin) =
   outcome (GetFleetStatus example_env (example_client 200 (Reader second_body None)) (Some ()) ''other token'' example_vin) \<and>
   UnpairedVINs (Response example_parsed) \<noteq> UnpairedVINs (Response second_parsed) \<and>
   KeyPairedVINs (Response example_parsed) \<noteq> KeyPairedVINs (Response second_parsed) \<and>
   dom (VehicleInfo (Response example_parsed)) \<noteq> dom (VehicleInfo (Response second_parsed))"
proof -
  have first: "received (events (GetFleetStatus example_env (example_client 200 (Reader example_body None)) (Some ()) ''token'' example_vin)) =
      [\<lparr>StatusCode = 200, Body = Reader example_body None\<rparr>]"
    by (simp add: run_defs)
  have second: "received (events (GetFleetStatus example_env (example_client 200 (Reader second_body None)) (Some ()) ''other token'' example_vin)) =
      [\<lparr>StatusCode = 200, Body = Reader second_body None\<rparr>]"
    by (simp add: run_defs)
  have parsed1: "json_Unmarshal example_env example_body = Inr example_parsed"
    by (simp add: example_env_def)
  have parsed2: "json_Unmarshal example_env second_body = Inr second_parsed"
    by (simp add: example_env_def second_body_def example_body_def)
  have same_length: "length (KeyPairedVINs (Response example_parsed)) = length (KeyPairedVINs (Response second_parsed))"
    by (simp add: example_parsed_def second_parsed_def)
  have same_entry: "VehicleInfo (Response example_parsed) example_vin = VehicleInfo (Response second_parsed) example_vin"
    by (simp add: example_parsed_def second_parsed_def example_vin_def)
  have differ: "UnpairedVINs (Response example_parsed) \<noteq> UnpairedVINs (Response second_parsed) \<and>
      KeyPairedVINs (Response example_parsed) \<noteq> KeyPairedVINs (Response second_parsed) \<and>
      dom (VehicleInfo (Response example_parsed)) \<noteq> dom (VehicleInfo (Response second_parsed))"
    by (simp add: example_parsed_def second_parsed_def example_vin_def other_vin_def)
  show ?thesis
    using GetFleetStatus_depends_only [OF first second _ _ _ _ parsed1 parsed2 same_length same_entry] differ
    by simp
qed

subsection \<open>Errors\<close>

text \<open>
  C3, amended. When the transport answers with a status other than 200,
  \<open>GetFleetStatus\<close> returns an error and no result; and when the body of that response
  is read without error, the error is \<^verbatim>\<open>status code %d\<close> with the numeric status
  code.
\<close>

theorem GetFleetStatus_status_not_200:
  assumes "received (events (GetFleetStatus env c ctx token vin)) = [resp]"
    and "StatusCode resp \<noteq> 200"
  shows "(\<exists>err. outcome (GetFleetStatus env c ctx token vin) = Return None (Some err)) \<and>
         (snd (io_ReadAll (Body resp)) = None \<longrightarrow>
            outcome (GetFleetStatus env c ctx token vin) =
              Return None (Some (Errorf_d ''status code %d'' (StatusCode resp))))"
  using assms
  by (auto simp: GetFleetStatus_def Let_def
           split: sum.splits option.splits prod.splits if_splits)

text \<open>An instance: status 403 with a readable body.\<close>

theorem GetFleetStatus_status_not_200_witness:
  "outcome (GetFleetStatus example_env (example_client 403 (Reader ''Forbidden'' None)) (Some ()) ''token'' example_vin) =
     Return None (Some (Errorf_d ''status code %d'' 403))"
proof -
  have answered: "received (events (GetFleetStatus example_env (example_client 403 (Reader ''Forbidden'' None)) (Some ()) ''token'' example_vin)) =
      [\<lparr>StatusCode = 403, Body = Reader ''Forbidden'' None\<rparr>]"
    by (simp add: run_defs)
  show ?thesis
    using GetFleetStatus_status_not_200 [OF answered] by simp
qed

text \<open>
  Without the condition on the body the statement fails: a response with status 500
  whose body cannot be read gives the read error, which does not carry the status code.
\<close>

theorem GetFleetStatus_status_not_200_counterexample:
  "received (events (GetFleetStatus example_env
       (example_client 500 (Reader [] (Some ''connection reset by peer''))) (Some ()) ''token'' example_vin)) =
     [\<lparr>StatusCode = 500, Body = Reader [] (Some ''connection reset by peer'')\<rparr>] \<and>
   outcome (GetFleetStatus example_env
       (example_client 500 (Reader [] (Some ''connection reset by peer''))) (Some ()) ''token'' example_vin) =
     Return None (Some (Errorf_w ''failed to read response body: %w'' (Lib ''connection reset by peer''))) \<and>
   outcome (GetFleetStatus example_env
       (example_client 500 (Reader [] (Some ''connection reset by peer''))) (Some ()) ''token'' example_vin) \<noteq>
     Return None (Some (Errorf_d ''status code %d'' 500))"
  by (simp add: run_defs)

text \<open>
  C9. The body of the response is read, and a failure to read it is reported, before the
  status code is looked at: when reading the body fails the call returns the read error,
  whatever the status code; and when the call returns the status-code error, the body
  was read without error (and the code is the response's, and is not 200).
\<close>

theorem GetFleetStatus_read_before_status:
  assumes "received (events (GetFleetStatus env c ctx token vin)) = [resp]"
  shows "(\<forall>bs rerr. io_ReadAll (Body resp) = (bs, Some rerr) \<longrightarrow>
            outcome (GetFleetStatus env c ctx token vin) =
              Return None (Some (Errorf_w ''failed to read response body: %w'' (Lib rerr)))) \<and>
         (\<forall>n. outcome (GetFleetStatus env c ctx token vin) =
                 Return None (Some (Errorf_d ''status code %d'' n)) \<longrightarrow>
               snd (io_ReadAll (Body resp)) = None \<and> n = StatusCode resp \<and> n \<noteq> 200)"
  using assms
  by (auto simp: GetFleetStatus_def Let_def
           split: sum.splits option.splits prod.splits if_splits)

text \<open>
  Two instances: status 502 with a body that breaks off, and status 403 with a body that
  is read to its end.
\<close>

theorem GetFleetStatus_read_before_status_witness:
  "outcome (GetFleetStatus example_env
       (example_client 502 (Reader ''<html>'' (Some ''unexpected EOF''))) (Some ()) ''token'' example_vin) =
     Return None (Some (Errorf_w ''failed to read response body: %w'' (Lib ''unexpected EOF''))) \<and>
   outcome (GetFleetStatus example_env
       (example_client 403 (Reader ''Forbidden'' None)) (Some ()) ''token'' example_vin) =
     Return None (Some (Errorf_d ''status code %d'' 403)) \<and>
   snd (io_ReadAll (Reader ''Forbidden'' (None :: string option))) = None"
proof -
  have failing: "received (events (GetFleetStatus example_env
       (example_client 502 (Reader ''<html>'' (Some ''unexpected EOF''))) (Some ()) ''token'' example_vin)) =
      [\<lparr>StatusCode = 502, Body = Reader ''<html>'' (Some ''unexpected EOF'')\<rparr>]"
    by (simp add: run_defs)
  have refused: "received (events (GetFleetStatus example_env
       (example_client 403 (Reader ''Forbidden'' None)) (Some ()) ''token'' example_vin)) =
      [\<lparr>StatusCode = 403, Body = Reader ''Forbidden'' None\<rparr>]"
    by (simp add: run_defs)
  have code: "outcome (GetFleetStatus example_env
       (example_client 403 (Reader ''Forbidden'' None)) (Some ()) ''token'' example_vin) =
      Return None (Some (Errorf_d ''status code %d'' 403))"
    by (simp add: run_defs)
  show ?thesis
    using GetFleetStatus_read_before_status [OF failing] GetFleetStatus_read_before_status [OF refused] code
    by simp
qed

text \<open>
  C5, amended. Every call to \<open>GetFleetStatus\<close> on a client whose base URL and transport
  are not \<^verbatim>\<open>nil\<close> returns, and exactly one of the two components it returns is
  \<^verbatim>\<open>nil\<close>: a result with no error, or an error with no result.
\<close>

theorem GetFleetStatus_one_outcome:
  assumes "baseURL c \<noteq> None" and "hc c \<noteq> None"
  shows "\<exists>r e. outcome (GetFleetStatus env c ctx token vin) = Return r e \<and> (r = None \<longleftrightarrow> e \<noteq> None)"
  using assms
  by (auto simp: GetFleetStatus_def Let_def
           split: sum.splits option.splits prod.splits if_splits)

theorem GetFleetStatus_one_outcome_witness:
  "baseURL (example_client 403 (Reader ''Forbidden'' None)) \<noteq> None \<and>
   hc (example_client 403 (Reader ''Forbidden'' None)) \<noteq> None \<and>
   (\<exists>r e. outcome (GetFleetStatus example_env (example_client 403 (Reader ''Forbidden'' None)) (Some ()) ''token'' example_vin) = Return r e \<and>
          (r = None \<longleftrightarrow> e \<noteq> None))"
proof -
  have url: "baseURL (example_client 403 (Reader ''Forbidden'' None)) \<noteq> None"
    by (simp add: run_defs)
  have transport: "hc (example_client 403 (Reader ''Forbidden'' None)) \<noteq> None"
    by (simp add: run_defs)
  show ?thesis
    using url transport GetFleetStatus_one_outcome [OF url transport] by simp
qed

text \<open>
  On a client built with a \<^verbatim>\<open>nil\<close> base URL the call returns neither: joining the
  path dereferences the base URL.
\<close>

theorem GetFleetStatus_one_outcome_counterexample:
  "New example_env [WithBaseURL None] =
     Built \<lparr>hc = Some (http_DefaultClient example_env), baseURL = None\<rparr> \<and>
   outcome (GetFleetStatus example_env
       \<lparr>hc = Some (http_DefaultClient example_env), baseURL = None\<rparr> (Some ()) ''token'' example_vin) = Panic"
  by (simp add: run_defs)

subsection \<open>The request\<close>

text \<open>
  C7, amended. In every call to \<open>GetFleetStatus\<close> with a context that is not
  \<^verbatim>\<open>nil\<close>, on a client whose base URL and transport are not \<^verbatim>\<open>nil\<close>, in which
  the request body is serialized and the URL is parsed, exactly one request is handed to
  the client's transport. It is a \<^verbatim>\<open>POST\<close> to the base URL joined with
  \<^verbatim>\<open>api/1/vehicles/fleet_status\<close>, its body is the serialized
  \<^verbatim>\<open>{"vins": [vin]}\<close>, and its headers are \<^verbatim>\<open>Authorization: Bearer\<close> with the
  token and \<^verbatim>\<open>Content-Type: application/json\<close>.
\<close>

theorem GetFleetStatus_one_request:
  assumes "json_Marshal env \<lparr>VINs = [vin]\<rparr> = Inr reqBytes"
    and "baseURL c = Some b"
    and "url_Parse env (url_String env (url_JoinPath env b [''api/1/vehicles/fleet_status''])) = Inr u"
    and "hc c = Some h"
    and "req = \<lparr>Method = ''POST'', URL = u,
                Header = [''Authorization'' \<mapsto> [''Bearer '' @ token],
                          ''Content-Type'' \<mapsto> [''application/json'']],
                ReqBody = reqBytes, Ctx = cx\<rparr>"
  shows "sent (events (GetFleetStatus env c (Some cx) token vin)) = [req] \<and>
         hd (events (GetFleetStatus env c (Some cx) token vin)) = Do req (h req)"
  using assms
  by (auto simp: GetFleetStatus_def Let_def http_NewRequestWithContext_def Header_Set_def
           split: sum.splits option.splits prod.splits if_splits)

theorem GetFleetStatus_one_request_witness:
  \<open>New example_env [] =
     Built \<lparr>hc = Some (http_DefaultClient example_env),
            baseURL = Some ''https://fleet-api.prd.na.vn.cloud.tesla.com''\<rparr> \<and>
   sent (events (GetFleetStatus example_env
       \<lparr>hc = Some (http_DefaultClient example_env),
        baseURL = Some ''https://fleet-api.prd.na.vn.cloud.tesla.com''\<rparr> (Some ()) ''token'' example_vin)) =
     [\<lparr>Method = ''POST'',
       URL = ''https://fleet-api.prd.na.vn.cloud.tesla.com/api/1/vehicles/fleet_status'',
       Header = [''Authorization'' \<mapsto> [''Bearer token''],
                 ''Content-Type'' \<mapsto> [''application/json'']],
       ReqBody = ''{"vins":["5YJ3E1EA1JF000001"]}'', Ctx = ()\<rparr>]\<close>
proof -
  have built: "New example_env [] =
      Built \<lparr>hc = Some (http_DefaultClient example_env),
             baseURL = Some ''https://fleet-api.prd.na.vn.cloud.tesla.com''\<rparr>"
    by (simp add: run_defs)
  have marshal: \<open>json_Marshal example_env \<lparr>VINs = [example_vin]\<rparr> = Inr ''{"vins":["5YJ3E1EA1JF000001"]}''\<close>
    by (simp add: example_env_def example_vin_def)
  have base: "baseURL \<lparr>hc = Some (http_DefaultClient example_env),
        baseURL = Some ''https://fleet-api.prd.na.vn.cloud.tesla.com''\<rparr> =
      Some ''https://fleet-api.prd.na.vn.cloud.tesla.com''"
    by simp
  have parse: "url_Parse example_env (url_String example_env
      (url_JoinPath example_env ''https://fleet-api.prd.na.vn.cloud.tesla.com'' [''api/1/vehicles/fleet_status''])) =
      Inr ''https://fleet-api.prd.na.vn.cloud.tesla.com/api/1/vehicles/fleet_status''"
    by (simp add: example_env_def)
  have transport: "hc \<lparr>hc = Some (http_DefaultClient example_env),
        baseURL = Some ''https://fleet-api.prd.na.vn.cloud.tesla.com''\<rparr> =
      Some (http_DefaultClient example_env)"
    by simp
  show ?thesis
    using built GetFleetStatus_one_request
      [where token = "''token''" and cx = "()", OF marshal base parse transport refl]
    by simp
qed

text \<open>
  Without those conditions the statement fails: with a \<^verbatim>\<open>nil\<close> context, or with a
  base URL whose printed form does not parse, the request is not constructed and nothing
  is handed to the transport.
\<close>

theorem GetFleetStatus_one_request_counterexample:
  "sent (events (GetFleetStatus example_env (example_client 200 (Reader example_body None)) None ''token'' example_vin)) = [] \<and>
   outcome (GetFleetStatus example_env (example_client 200 (Reader example_body None)) None ''token'' example_vin) =
     Return None (Some (Errorf_w ''failed to construct request: %w'' (errors_New ''net/http: nil Context''))) \<and>
   New example_env [WithBaseURL (Some ''https://fleet api.example'')] =
     Built \<lparr>hc = Some (http_DefaultClient example_env), baseURL = Some ''https://fleet api.example''\<rparr> \<and>
   sent (events (GetFleetStatus example_env
       \<lparr>hc = Some (http_DefaultClient example_env), baseURL = Some ''https://fleet api.example''\<rparr>
       (Some ()) ''token'' example_vin)) = [] \<and>
   outcome (GetFleetStatus example_env
       \<lparr>hc = Some (http_DefaultClient example_env), baseURL = Some ''https://fleet api.example''\<rparr>
       (Some ()) ''token'' example_vin) =
     Return None (Some (Errorf_w ''failed to construct request: %w'' (Lib ''invalid character in host name'')))"
  by (simp add: run_defs)

subsection \<open>The client\<close>

text \<open>
  C6, amended. For every sequence of options none of which is \<^verbatim>\<open>nil\<close>, \<open>New\<close>
  returns a client and does not fail. It starts from the defaults, the default HTTP
  client and the parsed production URL
  \<^verbatim>\<open>https://fleet-api.prd.na.vn.cloud.tesla.com\<close>, and applies the options in order,
  each to the client the earlier ones left. So the transport of the new client is the
  one given by the last \<open>WithHTTPClient\<close>, whatever options come before it and whatever
  base URLs are set after it, and likewise for the base URL and the last
  \<open>WithBaseURL\<close>. No option input is checked: a \<^verbatim>\<open>nil\<close> transport and a
  \<^verbatim>\<open>nil\<close> base URL are stored as they are.
\<close>

theorem New_applies_options:
  assumes "None \<notin> set options"
  shows "New env [] =
           Built \<lparr>hc = Some (http_DefaultClient env),
                  baseURL = (case url_Parse env ''https://fleet-api.prd.na.vn.cloud.tesla.com'' of
                               Inl err \<Rightarrow> None
                             | Inr u \<Rightarrow> Some u)\<rparr> \<and>
         (\<exists>c. New env options = Built c \<and>
              New env (options @ [Some f]) = Built (f c)) \<and>
         (\<exists>c. New env (options @ WithHTTPClient h # map WithBaseURL us) = Built c \<and> hc c = h) \<and>
         (\<exists>c. New env (options @ WithBaseURL u # map WithHTTPClient hs) = Built c \<and> baseURL c = u) \<and>
         New env [WithHTTPClient None, WithBaseURL None] = Built \<lparr>hc = None, baseURL = None\<rparr>"
proof -
  obtain c where c: "New env options = Built c"
    using apply_options_not_nil [OF assms] by (auto simp: New_def)
  have start: "New env [] =
      Built \<lparr>hc = Some (http_DefaultClient env),
             baseURL = (case url_Parse env ''https://fleet-api.prd.na.vn.cloud.tesla.com'' of
                          Inl err \<Rightarrow> None
                        | Inr u \<Rightarrow> Some u)\<rparr>"
    by (simp add: New_def DefaultBaseURL_def)
  have step: "New env (options @ [Some f]) = Built (f c)"
    using c by (simp add: New_def apply_options_append)
  have transport: "New env (options @ WithHTTPClient h # map WithBaseURL us) =
      Built (c\<lparr>hc := h, baseURL := last (baseURL c # us)\<rparr>)"
    using c by (simp add: New_def apply_options_append apply_options_WithBaseURL WithHTTPClient_def)
  have url: "New env (options @ WithBaseURL u # map WithHTTPClient hs) =
      Built (c\<lparr>baseURL := u, hc := last (hc c # hs)\<rparr>)"
    using c by (simp add: New_def apply_options_append apply_options_WithHTTPClient WithBaseURL_def)
  have nils: "New env [WithHTTPClient None, WithBaseURL None] = Built \<lparr>hc = None, baseURL = None\<rparr>"
    by (simp add: New_def WithHTTPClient_def WithBaseURL_def)
  show ?thesis
    using c start step transport url nils by simp
qed

text \<open>
  An instance: a self-hosted base URL, then a transport, then the base URL set again.
\<close>

theorem New_applies_options_witness:
  "None \<notin> set [WithBaseURL (Some ''https://proxy.example''),
      WithHTTPClient (Some (answering 200 (Reader example_body None)))] \<and>
   New example_env [] =
     Built \<lparr>hc = Some (http_DefaultClient example_env),
            baseURL = Some ''https://fleet-api.prd.na.vn.cloud.tesla.com''\<rparr> \<and>
   New example_env [WithBaseURL (Some ''https://proxy.example''),
      WithHTTPClient (Some (answering 200 (Reader example_body None))),
      WithBaseURL (Some ''https://other.example'')] =
     Built \<lparr>hc = Some (answering 200 (Reader example_body None)),
            baseURL = Some ''https://other.example''\<rparr>"
proof -
  have not_nil: "None \<notin> set [WithBaseURL (Some ''https://proxy.example''),
      WithHTTPClient (Some (answering 200 (Reader example_body None)))]"
    by (simp add: WithHTTPClient_def WithBaseURL_def)
  have built: "New example_env [WithBaseURL (Some ''https://proxy.example''),
      WithHTTPClient (Some (answering 200 (Reader example_body None)))] =
     Built \<lparr>hc = Some (answering 200 (Reader example_body None)),
            baseURL = Some ''https://proxy.example''\<rparr>"
    by (simp add: New_def WithHTTPClient_def WithBaseURL_def)
  show ?thesis
    using not_nil built
      New_applies_options [OF not_nil, of example_env
        "\<lambda>c. c\<lparr>baseURL := Some ''https://other.example''\<rparr>"]
    by (simp add: example_env_def WithBaseURL_def)
qed

text \<open>
  With a \<^verbatim>\<open>nil\<close> option in the sequence the construction fails: the loop calls it.
\<close>

theorem New_applies_options_counterexample:
  "New example_env [None] = Panicked \<and>
   New example_env [WithBaseURL (Some ''https://proxy.example''), None] = Panicked"
  by (simp add: New_def WithBaseURL_def)

text \<open>
  C8. Every call to \<open>GetFleetStatus\<close> leaves the client's configuration as it was: the
  transport and the base URL of the client after the call are those before it, however
  the call ends.
\<close>

theorem GetFleetStatus_client_unchanged:
  "client (GetFleetStatus env c ctx token vin) = c"
  by (simp add: GetFleetStatus_def Let_def split: sum.split option.split prod.split)

end
